theory Spec2Isabelle
  imports Complex_Main
begin

section \<open>The ledger state tracker of the JSON-RPC client\<close>

text \<open>
  The embedding follows \<^verbatim>\<open>src/diem/jsonrpc/client.py\<close>. Python integers are \<open>int\<close>,
  an argument that may be \<^verbatim>\<open>None\<close> is an \<open>option\<close>, a raised exception is the \<open>Inl\<close>
  of a sum and the mutation of \<^verbatim>\<open>self._last_known_server_state\<close> is explicit state passing.
  Durations and readings of the clock, floats in the source, are reals: the claims are
  about which product or sum the code forms, not about its rounding.
\<close>

text \<open>
  Modelled from the spec: the module \<^verbatim>\<open>diem.jsonrpc.state\<close> is not part of the sources at
  hand; \<^verbatim>\<open>State\<close> is the data class of the three fields that the client constructs and
  reads, the ledger state of the specification. The chain id of the stored state is
  an \<open>int option\<close>: \<^verbatim>\<open>_send_http_request\<close> hands \<^verbatim>\<open>json.get(...)\<close> to the update, which is
  \<^verbatim>\<open>None\<close> for an absent field, and the update stores a \<^verbatim>\<open>None\<close> chain id when the
  current one is the sentinel. The version and the timestamp are compared with \<^verbatim>\<open>>\<close>,
  which raises \<^verbatim>\<open>TypeError\<close> on \<^verbatim>\<open>None\<close>, so the stored ones are always integers.
\<close>

record State =
  chain_id :: "int option"
  version :: int
  timestamp_usecs :: int

datatype invalid_reason =
    ChainIdMismatch "int option" "int option"
  | NotJson
  | NoErrorOrResult
  | ParseFailed

datatype stale_reason =
    StaleVersion int int
  | StaleTimestamp int int

text \<open>
  Modelled from the spec: the module \<^verbatim>\<open>diem.jsonrpc.errors\<close> is not part of the sources at
  hand. Its exception classes are taken as pairwise unrelated subclasses of
  \<^verbatim>\<open>Exception\<close>, as the error taxonomy of the specification lists them; the constructor
  arguments stand for the data the messages are formatted from. The remaining
  constructors are the exceptions of Python and of the libraries that the code can meet.
  The specification calls \<open>InvalidServerResponse (ChainIdMismatch _ _)\<close> InconsistentChain.
\<close>

datatype ('j, 't) error =
    InvalidServerResponse invalid_reason
  | StaleResponseError stale_reason
  | JsonRpcError 'j
  | NetworkError
  | TransactionHashMismatchError 't string
  | TransactionExecutionFailed 't
  | TransactionExpired State int
  | WaitForTransactionTimeout real real
  | RequestException
  | ParseError
  | TypeError
  | ValueError
  | AttributeError
  | IndexError
  | UnboundLocalError

definition initial_state :: State where
  "initial_state = \<lparr>chain_id = Some (- 1), version = - 1, timestamp_usecs = - 1\<rparr>"

text \<open>
  \<^verbatim>\<open>update_last_known_state\<close>: the second component is the stored state after the call.
  Every \<^verbatim>\<open>raise\<close> comes before the assignment, so a failing call returns the state it
  was given.
\<close>

definition update_last_known_state ::
  "int option \<Rightarrow> int option \<Rightarrow> int option \<Rightarrow> State \<Rightarrow> (('j, 't) error + unit) \<times> State" where
  "update_last_known_state cid ver ts cur =
     (if chain_id cur \<noteq> Some (- 1) \<and> chain_id cur \<noteq> cid
      then (Inl (InvalidServerResponse (ChainIdMismatch (chain_id cur) cid)), cur)
      else (case ver of
        None \<Rightarrow> (Inl TypeError, cur)
      | Some v \<Rightarrow>
          (if version cur > v
           then (Inl (StaleResponseError (StaleVersion (version cur) v)), cur)
           else (case ts of
             None \<Rightarrow> (Inl TypeError, cur)
           | Some t \<Rightarrow>
               (if timestamp_usecs cur > t
                then (Inl (StaleResponseError (StaleTimestamp (timestamp_usecs cur) t)), cur)
                else (Inr (), \<lparr>chain_id = cid, version = v, timestamp_usecs = t\<rparr>))))))"

text \<open>A sequence of calls, each on the state its predecessor left, whatever it returned.\<close>

fun update_all :: "(int option \<times> int option \<times> int option) list \<Rightarrow> State \<Rightarrow> State" where
  "update_all [] cur = cur"
| "update_all ((cid, ver, ts) # us) cur =
     update_all us (snd (update_last_known_state cid ver ts cur :: ((unit, unit) error + unit) \<times> State))"

text \<open>The class \<^verbatim>\<open>StaleResponseError\<close> as the predicate of its instances, and a call that raised one.\<close>

definition isinstance_StaleResponseError :: "('j, 't) error \<Rightarrow> bool" where
  "isinstance_StaleResponseError e = (case e of StaleResponseError x \<Rightarrow> True | _ \<Rightarrow> False)"

definition is_stale :: "('j, 't) error + 'a \<Rightarrow> bool" where
  "is_stale r = (case r of Inl e \<Rightarrow> isinstance_StaleResponseError e | Inr v \<Rightarrow> False)"

section \<open>The world outside the tracker\<close>

text \<open>
  What the client can observe and change: the clock that \<^verbatim>\<open>time.time()\<close> reads, the
  tracker's stored state, and everything else (the servers, other threads), of which
  nothing is assumed. A collaborator is a function on the world, so a call of it may move
  the clock and the stored state as any concurrent caller could.
\<close>

record 's world =
  now :: real
  last_known_server_state :: State
  outside :: 's

text \<open>
  \<^verbatim>\<open>time.sleep\<close> raises \<^verbatim>\<open>ValueError\<close> on a negative argument; otherwise the clock moves
  on by the argument (the least a sleep takes).
\<close>

definition time_sleep :: "real \<Rightarrow> 's world \<Rightarrow> ('j, 't) error + 's world" where
  "time_sleep secs w = (if secs < 0 then Inl ValueError else Inr (w\<lparr>now := now w + secs\<rparr>))"

text \<open>\<^verbatim>\<open>x or default\<close> on an optional number: \<^verbatim>\<open>None\<close> and zero are both falsy.\<close>

definition or_default :: "real option \<Rightarrow> real \<Rightarrow> real" where
  "or_default x d = (case x of None \<Rightarrow> d | Some v \<Rightarrow> if v = 0 then d else v)"

section \<open>Retry\<close>

text \<open>
  The data class \<^verbatim>\<open>Retry\<close>. The field \<^verbatim>\<open>exception\<close> is a class; \<^verbatim>\<open>except self.exception\<close>
  asks whether the raised exception is an instance of it, so the class is modelled by
  the predicate of its instances.
\<close>

record ('j, 't) Retry =
  max_retries :: int
  delay_secs :: real
  exception :: "('j, 't) error \<Rightarrow> bool"

text \<open>
  What an observer of a run of \<^verbatim>\<open>Retry.execute\<close> counts: the invocations of \<^verbatim>\<open>fn\<close> and
  the arguments of the completed calls of \<^verbatim>\<open>time.sleep\<close>, in order. The program does not
  read it.
\<close>

record trace =
  invocations :: nat
  sleeps :: "real list"

definition no_trace :: trace where
  "no_trace = \<lparr>invocations = 0, sleeps = []\<rparr>"

text \<open>
  The \<^verbatim>\<open>while\<close> loop of \<^verbatim>\<open>Retry.execute\<close> from a value of \<^verbatim>\<open>tries\<close>. The result
  \<open>Inr None\<close> is the loop running out without a \<^verbatim>\<open>return\<close> (Python returns \<^verbatim>\<open>None\<close>).
  An exception of \<^verbatim>\<open>time.sleep\<close> inside the handler leaves the function.
\<close>

function execute_from ::
  "('j, 't) Retry \<Rightarrow> ('s world \<Rightarrow> (('j, 't) error + 'a) \<times> 's world) \<Rightarrow> int \<Rightarrow> trace \<Rightarrow> 's world
     \<Rightarrow> (('j, 't) error + 'a option) \<times> trace \<times> 's world" where
  "execute_from r fn tries tr w =
     (if tries < max_retries r then
        (case fn w of (res, w1) \<Rightarrow>
           (case res of
              Inr v \<Rightarrow> (Inr (Some v), tr\<lparr>invocations := invocations tr + 1\<rparr>, w1)
            | Inl e \<Rightarrow>
                if exception r e then
                  if tries + 1 < max_retries r then
                    (case time_sleep (delay_secs r * of_int (tries + 1)) w1 of
                       Inl e' \<Rightarrow> (Inl e', tr\<lparr>invocations := invocations tr + 1\<rparr>, w1)
                     | Inr w2 \<Rightarrow>
                         execute_from r fn (tries + 1)
                           (tr\<lparr>invocations := invocations tr + 1,
                               sleeps := sleeps tr @ [delay_secs r * of_int (tries + 1)]\<rparr>) w2)
                  else (Inl e, tr\<lparr>invocations := invocations tr + 1\<rparr>, w1)
                else (Inl e, tr\<lparr>invocations := invocations tr + 1\<rparr>, w1)))
      else (Inr None, tr, w))"
  by pat_completeness auto
termination
  by (relation "measure (\<lambda>(r, fn, tries, tr, w). nat (max_retries r - tries))") auto

declare execute_from.simps [simp del]

definition execute ::
  "('j, 't) Retry \<Rightarrow> ('s world \<Rightarrow> (('j, 't) error + 'a) \<times> 's world) \<Rightarrow> 's world
     \<Rightarrow> (('j, 't) error + 'a option) \<times> trace \<times> 's world" where
  "execute r fn w = execute_from r fn 0 no_trace w"

section \<open>One HTTP call\<close>

text \<open>
  The members of a decoded response body that the client reads. \<^verbatim>\<open>"error" in json\<close> and
  \<^verbatim>\<open>"result" in json\<close> test for the key, so a member is \<open>None\<close> when the key is absent.
  The three ledger fields are read with \<^verbatim>\<open>json.get\<close>, which gives \<^verbatim>\<open>None\<close> for an absent
  key; a present one is taken to be an integer, as the server sends it.
\<close>

record 'j envelope =
  error_member :: "'j option"
  result_member :: "'j option"
  diem_chain_id :: "int option"
  diem_ledger_version :: "int option"
  diem_ledger_timestampusec :: "int option"

record 'j request =
  jsonrpc_member :: string
  id_member :: int
  method_member :: string
  params_member :: "'j list"

text \<open>
  What \<^verbatim>\<open>self._session.post\<close> and the decoding of its answer can come to: the post
  raises (a \<^verbatim>\<open>requests.RequestException\<close>), the status is not 2xx (\<^verbatim>\<open>raise_for_status\<close>
  raises \<^verbatim>\<open>HTTPError\<close>, a \<^verbatim>\<open>RequestException\<close>), the body is not JSON (\<^verbatim>\<open>response.json()\<close>
  raises \<^verbatim>\<open>ValueError\<close>), the body is JSON but no object (\<^verbatim>\<open>json.get\<close> raises
  \<^verbatim>\<open>AttributeError\<close>), or the body is an object.
\<close>

datatype 'j http_response =
    PostFailed
  | BadStatus
  | BodyNotJson
  | BodyNotObject
  | Body "'j envelope"

type_synonym ('j, 's) session =
  "string \<Rightarrow> 'j request \<Rightarrow> 's world \<Rightarrow> 'j http_response \<times> 's world"

text \<open>The first part of \<^verbatim>\<open>_send_http_request\<close>, up to the decoded body; no use of the tracker.\<close>

definition receive_response ::
  "('j, 's) session \<Rightarrow> string \<Rightarrow> 'j request \<Rightarrow> 's world
     \<Rightarrow> (('j, 't) error + 'j envelope) \<times> 's world" where
  "receive_response post url request w =
     (case post url request w of (resp, w1) \<Rightarrow>
        (case resp of
           PostFailed \<Rightarrow> (Inl RequestException, w1)
         | BadStatus \<Rightarrow> (Inl RequestException, w1)
         | BodyNotJson \<Rightarrow> (Inl (InvalidServerResponse NotJson), w1)
         | BodyNotObject \<Rightarrow> (Inl AttributeError, w1)
         | Body json \<Rightarrow> (Inr json, w1)))"

text \<open>
  The second part: the update of the tracker (atomic, under the lock) and the handler
  that lets a \<^verbatim>\<open>StaleResponseError\<close> pass when \<^verbatim>\<open>ignore_stale_response\<close> is set.
\<close>

definition track_response ::
  "'j envelope \<Rightarrow> bool \<Rightarrow> 's world \<Rightarrow> (('j, 't) error + 'j envelope) \<times> 's world" where
  "track_response json ignore_stale_response w =
     (case update_last_known_state (diem_chain_id json) (diem_ledger_version json)
             (diem_ledger_timestampusec json) (last_known_server_state w) of
        (r, st) \<Rightarrow>
          ((case r of
              Inr u \<Rightarrow> Inr json
            | Inl e \<Rightarrow>
                (case e of
                   StaleResponseError x \<Rightarrow> if \<not> ignore_stale_response then Inl e else Inr json
                 | _ \<Rightarrow> Inl e)),
           w\<lparr>last_known_server_state := st\<rparr>))"

definition send_http_request ::
  "('j, 's) session \<Rightarrow> string \<Rightarrow> 'j request \<Rightarrow> bool \<Rightarrow> 's world
     \<Rightarrow> (('j, 't) error + 'j envelope) \<times> 's world" where
  "send_http_request post url request ignore_stale_response w =
     (case receive_response post url request w of (r, w1) \<Rightarrow>
        (case r of
           Inl e \<Rightarrow> (Inl e, w1)
         | Inr json \<Rightarrow> track_response json ignore_stale_response w1))"

section \<open>Request strategies\<close>

datatype strategy =
    RequestStrategy
  | RequestWithBackups (backups: "string list") (fallback: bool)

text \<open>
  \<^verbatim>\<open>_fallback_to_backup\<close> and \<^verbatim>\<open>_first_success\<close> on the outcomes of the two futures:
  \<^verbatim>\<open>Future.result()\<close> returns the value of the call or raises what it raised, and
  \<^verbatim>\<open>except Exception\<close> catches every error of the model. For \<^verbatim>\<open>_first_success\<close> the flag
  says which future \<^verbatim>\<open>as_completed\<close> yields first.
\<close>

definition fallback_to_backup :: "'e + 'a \<Rightarrow> 'e + 'a \<Rightarrow> 'e + 'a" where
  "fallback_to_backup primary backup = (case primary of Inr v \<Rightarrow> Inr v | Inl e \<Rightarrow> backup)"

definition first_success :: "bool \<Rightarrow> 'e + 'a \<Rightarrow> 'e + 'a \<Rightarrow> 'e + 'a" where
  "first_success primary_first primary backup =
     (case (if primary_first then primary else backup) of
        Inr v \<Rightarrow> Inr v
      | Inl e \<Rightarrow> (if primary_first then backup else primary))"

text \<open>
  The two calls submitted to the executor run concurrently. Each is two atomic steps,
  \<open>receive_response\<close> and \<open>track_response\<close>; a schedule says whose step comes next
  (\<open>True\<close>: the primary's), and steps it leaves out are run at the end, the primary's
  first. The world returned is the one in which both calls have finished.
\<close>

datatype ('j, 't) task =
    Submitted
  | Received "'j envelope"
  | Finished "('j, 't) error + 'j envelope"

definition task_step ::
  "('j, 's) session \<Rightarrow> string \<Rightarrow> 'j request \<Rightarrow> bool \<Rightarrow> ('j, 't) task \<Rightarrow> 's world
     \<Rightarrow> ('j, 't) task \<times> 's world" where
  "task_step post url request ignore_stale_response task w =
     (case task of
        Submitted \<Rightarrow>
          (case receive_response post url request w of (r, w1) \<Rightarrow>
             (case r of Inl e \<Rightarrow> (Finished (Inl e), w1) | Inr json \<Rightarrow> (Received json, w1)))
      | Received json \<Rightarrow>
          (case track_response json ignore_stale_response w of (r, w1) \<Rightarrow> (Finished r, w1))
      | Finished r \<Rightarrow> (Finished r, w))"

definition task_result ::
  "('j, 's) session \<Rightarrow> string \<Rightarrow> 'j request \<Rightarrow> bool \<Rightarrow> ('j, 't) task \<Rightarrow> 's world
     \<Rightarrow> (('j, 't) error + 'j envelope) \<times> 's world" where
  "task_result post url request ignore_stale_response task w =
     (case task of
        Submitted \<Rightarrow> send_http_request post url request ignore_stale_response w
      | Received json \<Rightarrow> track_response json ignore_stale_response w
      | Finished r \<Rightarrow> (r, w))"

fun run_tasks ::
  "bool list \<Rightarrow> ('j, 's) session \<Rightarrow> string \<Rightarrow> string \<Rightarrow> 'j request \<Rightarrow> bool
     \<Rightarrow> ('j, 't) task \<Rightarrow> ('j, 't) task \<Rightarrow> 's world
     \<Rightarrow> (('j, 't) error + 'j envelope) \<times> (('j, 't) error + 'j envelope) \<times> 's world" where
  "run_tasks [] post url burl request ign tp tb w =
     (case task_result post url request ign tp w of (rp, w1) \<Rightarrow>
        (case task_result post burl request ign tb w1 of (rb, w2) \<Rightarrow> (rp, rb, w2)))"
| "run_tasks (b # bs) post url burl request ign tp tb w =
     (if b
      then (case task_step post url request ign tp w of (tp', w1) \<Rightarrow>
              run_tasks bs post url burl request ign tp' tb w1)
      else (case task_step post burl request ign tb w of (tb', w1) \<Rightarrow>
              run_tasks bs post url burl request ign tp tb' w1))"

text \<open>
  What one call of \<^verbatim>\<open>send_request\<close> leaves to chance: the interleaving of the two calls,
  the index \<^verbatim>\<open>random.choice\<close> draws and the order in which \<^verbatim>\<open>as_completed\<close> yields.
\<close>

record chance =
  interleaving :: "bool list"
  choice :: nat
  primary_first :: bool

record ('j, 't, 's) Client =
  url :: string
  session_post :: "('j, 's) session"
  retry :: "('j, 't) Retry"
  rs :: strategy

text \<open>
  \<^verbatim>\<open>send_request\<close> of the two strategy classes. \<^verbatim>\<open>random.choice\<close> of an empty list raises
  \<^verbatim>\<open>IndexError\<close>, after the primary call was submitted.
\<close>

definition send_request ::
  "('j, 't, 's) Client \<Rightarrow> chance \<Rightarrow> 'j request \<Rightarrow> bool \<Rightarrow> 's world
     \<Rightarrow> (('j, 't) error + 'j envelope) \<times> 's world" where
  "send_request client ch request ignore_stale_response w =
     (case rs client of
        RequestStrategy \<Rightarrow>
          send_http_request (session_post client) (url client) request ignore_stale_response w
      | RequestWithBackups bks fb \<Rightarrow>
          (if bks = []
           then (Inl IndexError,
                 snd (send_http_request (session_post client) (url client) request
                        ignore_stale_response w :: (('j, 't) error + 'j envelope) \<times> 's world))
           else (case run_tasks (interleaving ch) (session_post client) (url client)
                        (bks ! (choice ch mod length bks)) request ignore_stale_response
                        Submitted Submitted w of
                   (primary, backup, w1) \<Rightarrow>
                     (if fb then fallback_to_backup primary backup
                      else first_success (primary_first ch) primary backup, w1))))"

section \<open>One JSON-RPC call\<close>

text \<open>
  The body of the \<^verbatim>\<open>try\<close> of \<^verbatim>\<open>execute_without_retry\<close> after the response arrived. A call
  without \<^verbatim>\<open>result_parser\<close> returns \<^verbatim>\<open>None\<close>.
\<close>

definition classify ::
  "'j envelope \<Rightarrow> ('j \<Rightarrow> ('j, 't) error + 'r) option \<Rightarrow> ('j, 't) error + 'r option" where
  "classify json result_parser =
     (case error_member json of
        Some err \<Rightarrow> Inl (JsonRpcError err)
      | None \<Rightarrow>
          (case result_member json of
             Some res \<Rightarrow>
               (case result_parser of
                  Some parse \<Rightarrow> (case parse res of Inl e \<Rightarrow> Inl e | Inr v \<Rightarrow> Inr (Some v))
                | None \<Rightarrow> Inr None)
           | None \<Rightarrow> Inl (InvalidServerResponse NoErrorOrResult)))"

text \<open>
  The two \<^verbatim>\<open>except\<close> clauses. The second formats \<^verbatim>\<open>json\<close> into its message, which is
  unbound when the exception came out of \<^verbatim>\<open>send_request\<close>.
\<close>

definition translate_exception :: "bool \<Rightarrow> ('j, 't) error \<Rightarrow> ('j, 't) error" where
  "translate_exception json_bound e =
     (case e of
        RequestException \<Rightarrow> NetworkError
      | ParseError \<Rightarrow> if json_bound then InvalidServerResponse ParseFailed else UnboundLocalError
      | _ \<Rightarrow> e)"

definition execute_without_retry ::
  "('j, 't, 's) Client \<Rightarrow> chance \<Rightarrow> string \<Rightarrow> 'j list \<Rightarrow> ('j \<Rightarrow> ('j, 't) error + 'r) option
     \<Rightarrow> bool option \<Rightarrow> 's world \<Rightarrow> (('j, 't) error + 'r option) \<times> 's world" where
  "execute_without_retry client ch method_name params result_parser ignore_stale_response w =
     (case send_request client ch
             \<lparr>jsonrpc_member = ''2.0'', id_member = 1, method_member = method_name,
              params_member = params\<rparr>
             (case ignore_stale_response of None \<Rightarrow> False | Some b \<Rightarrow> b) w of
        (r, w1) \<Rightarrow>
          (case r of
             Inl e \<Rightarrow> (Inl (translate_exception False e), w1)
           | Inr json \<Rightarrow>
               (case classify json result_parser of
                  Inl e \<Rightarrow> (Inl (translate_exception True e), w1)
                | Inr v \<Rightarrow> (Inr v, w1))))"

section \<open>Waiting for a transaction\<close>

text \<open>The two fields of \<^verbatim>\<open>rpc.Transaction\<close> that the loop reads.\<close>

record Transaction =
  hash :: string
  vm_status_type :: string

text \<open>
  Modelled from the spec: the constants of \<^verbatim>\<open>diem.jsonrpc.constants\<close> are not part of the
  sources at hand; the functions take them as a parameter.
\<close>

record constants =
  DEFAULT_WAIT_FOR_TRANSACTION_TIMEOUT_SECS :: real
  DEFAULT_WAIT_FOR_TRANSACTION_WAIT_DURATION_SECS :: real
  VM_STATUS_EXECUTED :: string

definition get_last_known_state :: "'s world \<Rightarrow> State" where
  "get_last_known_state w = last_known_server_state w"

type_synonym ('j, 'a, 's) lookup =
  "'a \<Rightarrow> int \<Rightarrow> bool \<Rightarrow> 's world \<Rightarrow> (('j, Transaction) error + Transaction option) \<times> 's world"

text \<open>
  The \<^verbatim>\<open>while\<close> loop of \<^verbatim>\<open>wait_for_transaction2\<close>. Nothing bounds the number of rounds
  when the clock stands still, so the loop has fuel: \<open>None\<close> is a run that needs more
  rounds than the fuel allows. \<^verbatim>\<open>get_account_transaction\<close> is the lookup collaborator.
  Time passes in the lookup and in the sleep only: two reads of \<^verbatim>\<open>time.time()\<close> with
  neither in between give the same value.
\<close>

fun wait_loop ::
  "nat \<Rightarrow> constants \<Rightarrow> ('j, 'a, 's) lookup \<Rightarrow> 'a \<Rightarrow> int \<Rightarrow> int \<Rightarrow> string \<Rightarrow> real \<Rightarrow> real
     \<Rightarrow> real option \<Rightarrow> 's world \<Rightarrow> ((('j, Transaction) error + Transaction) \<times> 's world) option" where
  "wait_loop 0 c get_account_transaction address seq expiration_time_secs txn_hash
     start_time max_wait wait_duration_secs w = None"
| "wait_loop (Suc fuel) c get_account_transaction address seq expiration_time_secs txn_hash
     start_time max_wait wait_duration_secs w =
     (if now w < max_wait then
        (case get_account_transaction address seq True w of (r, w1) \<Rightarrow>
           (case r of
              Inl e \<Rightarrow> Some (Inl e, w1)
            | Inr (Some txn) \<Rightarrow>
                (if hash txn \<noteq> txn_hash
                 then Some (Inl (TransactionHashMismatchError txn txn_hash), w1)
                 else if vm_status_type txn \<noteq> VM_STATUS_EXECUTED c
                 then Some (Inl (TransactionExecutionFailed txn), w1)
                 else Some (Inr txn, w1))
            | Inr None \<Rightarrow>
                (if expiration_time_secs * 1000000 \<le> timestamp_usecs (get_last_known_state w)
                 then Some (Inl (TransactionExpired (get_last_known_state w) expiration_time_secs), w1)
                 else (case time_sleep
                              (or_default wait_duration_secs
                                 (DEFAULT_WAIT_FOR_TRANSACTION_WAIT_DURATION_SECS c)) w1 of
                         Inl e \<Rightarrow> Some (Inl e, w1)
                       | Inr w2 \<Rightarrow>
                           wait_loop fuel c get_account_transaction address seq
                             expiration_time_secs txn_hash start_time max_wait
                             wait_duration_secs w2))))
      else Some (Inl (WaitForTransactionTimeout start_time (now w)), w))"

definition wait_for_transaction2 ::
  "nat \<Rightarrow> constants \<Rightarrow> ('j, 'a, 's) lookup \<Rightarrow> 'a \<Rightarrow> int \<Rightarrow> int \<Rightarrow> string \<Rightarrow> real option
     \<Rightarrow> real option \<Rightarrow> 's world \<Rightarrow> ((('j, Transaction) error + Transaction) \<times> 's world) option" where
  "wait_for_transaction2 fuel c get_account_transaction address seq expiration_time_secs
     txn_hash timeout_secs wait_duration_secs w =
     wait_loop fuel c get_account_transaction address seq expiration_time_secs txn_hash
       (now w) (now w + or_default timeout_secs (DEFAULT_WAIT_FOR_TRANSACTION_TIMEOUT_SECS c))
       wait_duration_secs w"

section \<open>Runs of the two loops\<close>

text \<open>
  The world in which attempt \<open>i\<close> (counted from 0) of \<^verbatim>\<open>Retry.execute\<close> starts, when every
  earlier attempt failed and was followed by its sleep of \<open>delay_secs * tries\<close>.
\<close>

fun attempt_world ::
  "('j, 't) Retry \<Rightarrow> ('s world \<Rightarrow> (('j, 't) error + 'a) \<times> 's world) \<Rightarrow> 's world \<Rightarrow> nat \<Rightarrow> 's world" where
  "attempt_world r fn w 0 = w"
| "attempt_world r fn w (Suc i) =
     (snd (fn (attempt_world r fn w i)))
       \<lparr>now := now (snd (fn (attempt_world r fn w i))) + delay_secs r * of_int (int i + 1)\<rparr>"

text \<open>
  The world in which round \<open>i\<close> (counted from 0) of the wait loop starts, when every earlier
  round ended in its sleep of the poll interval.
\<close>

fun poll_world ::
  "constants \<Rightarrow> ('j, 'a, 's) lookup \<Rightarrow> 'a \<Rightarrow> int \<Rightarrow> real option \<Rightarrow> 's world \<Rightarrow> nat \<Rightarrow> 's world" where
  "poll_world c get_account_transaction address seq wait_duration_secs w 0 = w"
| "poll_world c get_account_transaction address seq wait_duration_secs w (Suc i) =
     (snd (get_account_transaction address seq True
             (poll_world c get_account_transaction address seq wait_duration_secs w i)))
       \<lparr>now := now (snd (get_account_transaction address seq True
                  (poll_world c get_account_transaction address seq wait_duration_secs w i)))
               + or_default wait_duration_secs (DEFAULT_WAIT_FOR_TRANSACTION_WAIT_DURATION_SECS c)\<rparr>"

section \<open>The tracker: freshness and chain identity\<close>

lemma update_last_known_state_mono:
  "version cur \<le> version (snd (update_last_known_state cid ver ts cur :: (('j, 't) error + unit) \<times> State))
   \<and> timestamp_usecs cur \<le> timestamp_usecs (snd (update_last_known_state cid ver ts cur :: (('j, 't) error + unit) \<times> State))"
  by (simp add: update_last_known_state_def split: option.splits)

lemma update_all_mono:
  "version cur \<le> version (update_all us cur) \<and> timestamp_usecs cur \<le> timestamp_usecs (update_all us cur)"
proof (induction us arbitrary: cur)
  case Nil
  show ?case by simp
next
  case (Cons u us)
  obtain cid ver ts where u: "u = (cid, ver, ts)" by (cases u)
  let ?next = "snd (update_last_known_state cid ver ts cur :: ((unit, unit) error + unit) \<times> State)"
  have "version cur \<le> version ?next" "timestamp_usecs cur \<le> timestamp_usecs ?next"
    using update_last_known_state_mono [of cur cid ver ts, where ?'j = unit and ?'t = unit] by simp_all
  moreover have "version ?next \<le> version (update_all us ?next)"
    "timestamp_usecs ?next \<le> timestamp_usecs (update_all us ?next)"
    using Cons.IH [of ?next] by simp_all
  ultimately show ?case by (simp add: u)
qed

text \<open>
  Claim C1 as it is written says that every call with a smaller version or timestamp
  fails with a stale response. A call that also brings another chain id does not: the
  chain id is compared first, and the call below, with version 9 against a stored 10,
  raises \<^verbatim>\<open>InvalidServerResponse\<close>.
\<close>

theorem update_chain_mismatch_counterexample:
  "(9::int) < 10 \<and>
   \<not> is_stale (fst (update_last_known_state (Some 3) (Some 9) (Some 1000)
       \<lparr>chain_id = Some 2, version = 10, timestamp_usecs = 1000\<rparr> :: ((unit, unit) error + unit) \<times> State))"
  by (simp add: update_last_known_state_def is_stale_def isinstance_StaleResponseError_def)

text \<open>
  Claim C1, amended: over every sequence of calls of \<^verbatim>\<open>update_last_known_state\<close> the
  stored version and timestamp never decrease. A call that passes the chain id check (the
  stored chain id is the sentinel -1 or the incoming one) and brings a version or a
  timestamp strictly below the stored one raises \<^verbatim>\<open>StaleResponseError\<close> and leaves the
  stored state as it was; a call that passes the check with neither below replaces the
  stored state by the incoming triple and succeeds.
\<close>

theorem update_last_known_state_freshness:
  "(version cur \<le> version (update_all us cur)
      \<and> timestamp_usecs cur \<le> timestamp_usecs (update_all us cur))
   \<and> ((chain_id cur = Some (- 1) \<or> chain_id cur = Some c) \<and> (v < version cur \<or> t < timestamp_usecs cur)
        \<longrightarrow> is_stale (fst (update_last_known_state (Some c) (Some v) (Some t) cur :: (('j, 't) error + unit) \<times> State))
          \<and> snd (update_last_known_state (Some c) (Some v) (Some t) cur :: (('j, 't) error + unit) \<times> State) = cur)
   \<and> ((chain_id cur = Some (- 1) \<or> chain_id cur = Some c) \<and> version cur \<le> v \<and> timestamp_usecs cur \<le> t
        \<longrightarrow> (update_last_known_state (Some c) (Some v) (Some t) cur :: (('j, 't) error + unit) \<times> State)
            = (Inr (), \<lparr>chain_id = Some c, version = v, timestamp_usecs = t\<rparr>))"
proof (intro conjI impI)
  show "version cur \<le> version (update_all us cur)" using update_all_mono by blast
  show "timestamp_usecs cur \<le> timestamp_usecs (update_all us cur)" using update_all_mono by blast
next
  assume "(chain_id cur = Some (- 1) \<or> chain_id cur = Some c) \<and> (v < version cur \<or> t < timestamp_usecs cur)"
  then show "is_stale (fst (update_last_known_state (Some c) (Some v) (Some t) cur :: (('j, 't) error + unit) \<times> State))"
    and "snd (update_last_known_state (Some c) (Some v) (Some t) cur :: (('j, 't) error + unit) \<times> State) = cur"
    by (auto simp: update_last_known_state_def is_stale_def isinstance_StaleResponseError_def)
next
  assume "(chain_id cur = Some (- 1) \<or> chain_id cur = Some c) \<and> version cur \<le> v \<and> timestamp_usecs cur \<le> t"
  then show "(update_last_known_state (Some c) (Some v) (Some t) cur :: (('j, 't) error + unit) \<times> State)
            = (Inr (), \<lparr>chain_id = Some c, version = v, timestamp_usecs = t\<rparr>)"
    by (auto simp: update_last_known_state_def)
qed

theorem update_last_known_state_freshness_witness:
  "update_all [(Some 2, Some 10, Some 1000), (Some 2, Some 9, Some 2000), (Some 2, Some 12, Some 1500)] initial_state
     = \<lparr>chain_id = Some 2, version = 12, timestamp_usecs = 1500\<rparr>
   \<and> is_stale (fst (update_last_known_state (Some 2) (Some 9) (Some 2000)
        \<lparr>chain_id = Some 2, version = 10, timestamp_usecs = 1000\<rparr> :: ((unit, unit) error + unit) \<times> State))
   \<and> (update_last_known_state (Some 2) (Some 12) (Some 1500)
        \<lparr>chain_id = Some 2, version = 10, timestamp_usecs = 1000\<rparr> :: ((unit, unit) error + unit) \<times> State)
      = (Inr (), \<lparr>chain_id = Some 2, version = 12, timestamp_usecs = 1500\<rparr>)"
  using update_last_known_state_freshness [where cur = "\<lparr>chain_id = Some 2, version = 10, timestamp_usecs = 1000\<rparr>"
      and c = 2 and v = 9 and t = 2000 and us = "[]", where ?'j = unit and ?'t = unit]
    update_last_known_state_freshness [where cur = "\<lparr>chain_id = Some 2, version = 10, timestamp_usecs = 1000\<rparr>"
      and c = 2 and v = 12 and t = 1500 and us = "[]", where ?'j = unit and ?'t = unit]
  by (simp add: initial_state_def update_last_known_state_def is_stale_def isinstance_StaleResponseError_def)

text \<open>
  Claim C2: when the stored chain id is set (not the sentinel -1), a call with any other
  chain id raises \<^verbatim>\<open>InvalidServerResponse\<close> for the chain id (the InconsistentChain of the
  specification) and leaves the stored state as it was, whatever version and timestamp
  it brings, absent ones included; it never raises \<^verbatim>\<open>StaleResponseError\<close>.
\<close>

theorem update_chain_id_mismatch:
  "chain_id cur = Some c \<Longrightarrow> c \<noteq> - 1 \<Longrightarrow> cid \<noteq> Some c \<Longrightarrow>
   (update_last_known_state cid ver ts cur :: (('j, 't) error + unit) \<times> State)
     = (Inl (InvalidServerResponse (ChainIdMismatch (Some c) cid)), cur)
   \<and> \<not> is_stale (fst (update_last_known_state cid ver ts cur :: (('j, 't) error + unit) \<times> State))"
  by (auto simp: update_last_known_state_def is_stale_def isinstance_StaleResponseError_def)

theorem update_chain_id_mismatch_witness:
  "(update_last_known_state (Some 3) (Some 9) None
      \<lparr>chain_id = Some 2, version = 10, timestamp_usecs = 1000\<rparr> :: ((unit, unit) error + unit) \<times> State)
   = (Inl (InvalidServerResponse (ChainIdMismatch (Some 2) (Some 3))),
      \<lparr>chain_id = Some 2, version = 10, timestamp_usecs = 1000\<rparr>)"
  using update_chain_id_mismatch [where cur = "\<lparr>chain_id = Some 2, version = 10, timestamp_usecs = 1000\<rparr>"
      and c = 2 and cid = "Some 3" and ver = "Some 9" and ts = None, where ?'j = unit and ?'t = unit]
  by simp

section \<open>Retry: the number of attempts and the backoff\<close>

lemma execute_from_unfold_fail:
  assumes "tries < max_retries r" "fn w = (Inl e, w1)" "exception r e" "tries + 1 < max_retries r"
    "0 \<le> delay_secs r * of_int (tries + 1)"
  shows "execute_from r fn tries tr w =
     execute_from r fn (tries + 1)
       (tr\<lparr>invocations := invocations tr + 1,
           sleeps := sleeps tr @ [delay_secs r * of_int (tries + 1)]\<rparr>)
       (w1\<lparr>now := now w1 + delay_secs r * of_int (tries + 1)\<rparr>)"
  using assms by (subst execute_from.simps) (simp add: time_sleep_def)

lemma execute_from_unfold_last:
  assumes "tries < max_retries r" "fn w = (Inl e, w1)" "exception r e" "\<not> tries + 1 < max_retries r"
  shows "execute_from r fn tries tr w = (Inl e, tr\<lparr>invocations := invocations tr + 1\<rparr>, w1)"
  using assms by (subst execute_from.simps) simp

lemma execute_from_unfold_other:
  assumes "tries < max_retries r" "fn w = (Inl e, w1)" "\<not> exception r e"
  shows "execute_from r fn tries tr w = (Inl e, tr\<lparr>invocations := invocations tr + 1\<rparr>, w1)"
  using assms by (subst execute_from.simps) simp

lemma execute_from_unfold_return:
  assumes "tries < max_retries r" "fn w = (Inr v, w1)"
  shows "execute_from r fn tries tr w = (Inr (Some v), tr\<lparr>invocations := invocations tr + 1\<rparr>, w1)"
  using assms by (subst execute_from.simps) simp

lemma execute_from_retries:
  assumes fails: "\<forall>i<k. \<exists>e. fst (fn (attempt_world r fn w i)) = Inl e \<and> exception r e"
    and delay: "0 \<le> delay_secs r"
    and k: "int k < max_retries r"
    and j: "j \<le> k"
  shows "execute_from r fn (int j) tr (attempt_world r fn w j) =
     execute_from r fn (int k)
       \<lparr>invocations = invocations tr + (k - j),
        sleeps = sleeps tr @ map (\<lambda>n. delay_secs r * real n) [Suc j..<Suc k]\<rparr>
       (attempt_world r fn w k)"
  using j
proof (induction "k - j" arbitrary: j tr)
  case 0
  then have "j = k" by simp
  then show ?case by (cases tr) simp
next
  case (Suc d)
  then have jk: "j < k" by simp
  obtain e where e: "fst (fn (attempt_world r fn w j)) = Inl e" "exception r e"
    using fails jk by blast
  obtain w1 where w1: "fn (attempt_world r fn w j) = (Inl e, w1)"
    using e(1) by (cases "fn (attempt_world r fn w j)") simp
  have nonneg: "0 \<le> delay_secs r * of_int (int j + 1)"
    using delay by simp
  have step: "execute_from r fn (int j) tr (attempt_world r fn w j) =
      execute_from r fn (int (Suc j))
        (tr\<lparr>invocations := invocations tr + 1,
            sleeps := sleeps tr @ [delay_secs r * real (Suc j)]\<rparr>)
        (attempt_world r fn w (Suc j))"
    using execute_from_unfold_fail [of "int j" r fn "attempt_world r fn w j" e w1 tr] w1 e(2) jk k nonneg
    by (simp add: add.commute)
  have "d = k - Suc j" "Suc j \<le> k" using Suc.hyps(2) jk by simp_all
  note IH = Suc.hyps(1) [OF this, of "tr\<lparr>invocations := invocations tr + 1,
            sleeps := sleeps tr @ [delay_secs r * real (Suc j)]\<rparr>"]
  have up: "[Suc j..<Suc k] = Suc j # [Suc (Suc j)..<Suc k]"
    using jk by (simp add: upt_conv_Cons)
  have inv: "invocations tr + 1 + (k - Suc j) = invocations tr + (k - j)"
    using jk by simp
  have sl: "(sleeps tr @ [delay_secs r * real (Suc j)]) @ map (\<lambda>n. delay_secs r * real n) [Suc (Suc j)..<Suc k]
      = sleeps tr @ map (\<lambda>n. delay_secs r * real n) [Suc j..<Suc k]"
    unfolding up by simp
  have sel: "invocations (tr\<lparr>invocations := invocations tr + 1,
            sleeps := sleeps tr @ [delay_secs r * real (Suc j)]\<rparr>) = invocations tr + 1"
    "sleeps (tr\<lparr>invocations := invocations tr + 1,
            sleeps := sleeps tr @ [delay_secs r * real (Suc j)]\<rparr>) = sleeps tr @ [delay_secs r * real (Suc j)]"
    by simp_all
  show ?case
    unfolding step IH by (simp only: sel inv sl)
qed

text \<open>
  Claim C5: when the first \<open>k\<close> invocations raise an instance of the configured class,
  \<open>k\<close> below \<^verbatim>\<open>max_retries\<close>, and the next one returns \<open>v\<close>, then \<^verbatim>\<open>Retry.execute\<close> returns
  \<open>v\<close> after exactly \<open>k + 1\<close> invocations, having slept \<open>delay_secs * 1\<close>, ...,
  \<open>delay_secs * k\<close> between them. The delay is a duration: \<^verbatim>\<open>time.sleep\<close> refuses a
  negative one.
\<close>

theorem retry_execute_success_after_failures:
  assumes k: "int k < max_retries r"
    and delay: "0 \<le> delay_secs r"
    and fails: "\<forall>i<k. \<exists>e. fst (fn (attempt_world r fn w i)) = Inl e \<and> exception r e"
    and succeeds: "fst (fn (attempt_world r fn w k)) = Inr v"
  shows "execute r fn w =
     (Inr (Some v),
      \<lparr>invocations = k + 1, sleeps = map (\<lambda>n. delay_secs r * real n) [1..<k + 1]\<rparr>,
      snd (fn (attempt_world r fn w k)))"
proof -
  have "execute r fn w = execute_from r fn (int 0) no_trace (attempt_world r fn w 0)"
    by (simp add: execute_def)
  also have "\<dots> = execute_from r fn (int k)
       \<lparr>invocations = invocations no_trace + (k - 0),
        sleeps = sleeps no_trace @ map (\<lambda>n. delay_secs r * real n) [Suc 0..<Suc k]\<rparr>
       (attempt_world r fn w k)"
    by (rule execute_from_retries [OF fails delay k]) simp
  also have "\<dots> = (Inr (Some v),
      \<lparr>invocations = k + 1, sleeps = map (\<lambda>n. delay_secs r * real n) [1..<k + 1]\<rparr>,
      snd (fn (attempt_world r fn w k)))"
    using execute_from_unfold_return [OF k, of fn "attempt_world r fn w k" v
        "snd (fn (attempt_world r fn w k))"] succeeds
    by (simp add: no_trace_def prod_eq_iff)
  finally show ?thesis .
qed

theorem retry_execute_success_after_failures_witness:
  "execute \<lparr>max_retries = 3, delay_secs = 2, exception = isinstance_StaleResponseError\<rparr>
     (\<lambda>w. (if outside w < 2 then Inl (StaleResponseError (StaleVersion 10 9)) else Inr (outside w),
           w\<lparr>outside := outside w + 1\<rparr>))
     \<lparr>now = 0, last_known_server_state = initial_state, outside = 0 :: nat\<rparr>
   = (Inr (Some 2) :: (unit, unit) error + nat option,
      \<lparr>invocations = 3, sleeps = [2, 4]\<rparr>,
      \<lparr>now = 6, last_known_server_state = initial_state, outside = 3\<rparr>)"
  using retry_execute_success_after_failures [where k = 2 and v = 2
      and r = "\<lparr>max_retries = 3, delay_secs = 2, exception = isinstance_StaleResponseError\<rparr>"
      and fn = "\<lambda>w. (if outside w < 2 then Inl (StaleResponseError (StaleVersion 10 9) :: (unit, unit) error)
             else Inr (outside w),
           w\<lparr>outside := outside w + 1\<rparr>)"
      and w = "\<lparr>now = 0, last_known_server_state = initial_state, outside = 0 :: nat\<rparr>"]
  by (simp add: numeral_2_eq_2 less_Suc_eq isinstance_StaleResponseError_def upt_rec)

text \<open>
  Claim C6: when each of the \<^verbatim>\<open>max_retries\<close> invocations (at least one) raises an instance
  of the configured class, \<^verbatim>\<open>Retry.execute\<close> invokes the operation exactly
  \<^verbatim>\<open>max_retries\<close> times and raises the exception of the last invocation itself.
\<close>

theorem retry_execute_exhausted:
  assumes m: "max_retries r = int m" "1 \<le> m"
    and delay: "0 \<le> delay_secs r"
    and fails: "\<forall>i<m. \<exists>e. fst (fn (attempt_world r fn w i)) = Inl e \<and> exception r e"
  shows "\<exists>e. fst (fn (attempt_world r fn w (m - 1))) = Inl e \<and>
     execute r fn w =
       (Inl e,
        \<lparr>invocations = m, sleeps = map (\<lambda>n. delay_secs r * real n) [1..<m]\<rparr>,
        snd (fn (attempt_world r fn w (m - 1))))"
proof -
  obtain k where mk: "m = Suc k" using m(2) by (cases m) simp_all
  have k: "int k < max_retries r" using m(1) mk by simp
  have fails': "\<forall>i<k. \<exists>e. fst (fn (attempt_world r fn w i)) = Inl e \<and> exception r e"
    using fails mk by simp
  obtain e where e: "fst (fn (attempt_world r fn w k)) = Inl e" "exception r e"
    using fails mk by blast
  have last: "\<not> int k + 1 < max_retries r" using m(1) mk by simp
  have "execute r fn w = execute_from r fn (int 0) no_trace (attempt_world r fn w 0)"
    by (simp add: execute_def)
  also have "\<dots> = execute_from r fn (int k)
       \<lparr>invocations = invocations no_trace + (k - 0),
        sleeps = sleeps no_trace @ map (\<lambda>n. delay_secs r * real n) [Suc 0..<Suc k]\<rparr>
       (attempt_world r fn w k)"
    by (rule execute_from_retries [OF fails' delay k]) simp
  also have "\<dots> = (Inl e,
      \<lparr>invocations = m, sleeps = map (\<lambda>n. delay_secs r * real n) [1..<m]\<rparr>,
      snd (fn (attempt_world r fn w k)))"
    using execute_from_unfold_last [OF k _ e(2) last, of fn "attempt_world r fn w k"
        "snd (fn (attempt_world r fn w k))"] e(1)
    by (simp add: no_trace_def prod_eq_iff mk)
  finally show ?thesis using e(1) mk by simp
qed

theorem retry_execute_exhausted_witness:
  "execute \<lparr>max_retries = 3, delay_secs = 2, exception = isinstance_StaleResponseError\<rparr>
     (\<lambda>w. (Inl (StaleResponseError (StaleVersion 10 (int (outside w)))), w\<lparr>outside := outside w + 1\<rparr>))
     \<lparr>now = 0, last_known_server_state = initial_state, outside = 0 :: nat\<rparr>
   = (Inl (StaleResponseError (StaleVersion 10 2)) :: (unit, unit) error + nat option,
      \<lparr>invocations = 3, sleeps = [2, 4]\<rparr>,
      \<lparr>now = 6, last_known_server_state = initial_state, outside = 3\<rparr>)"
  using retry_execute_exhausted [where m = 3
      and r = "\<lparr>max_retries = 3, delay_secs = 2, exception = isinstance_StaleResponseError\<rparr>"
      and fn = "\<lambda>w. (Inl (StaleResponseError (StaleVersion 10 (int (outside w)))) :: (unit, unit) error + nat,
           w\<lparr>outside := outside w + 1\<rparr>)"
      and w = "\<lparr>now = 0, last_known_server_state = initial_state, outside = 0 :: nat\<rparr>"]
  by (simp add: numeral_3_eq_3 less_Suc_eq isinstance_StaleResponseError_def upt_rec)

text \<open>
  Claim C7: when the first invocation raises an exception that is no instance of the
  configured class, \<^verbatim>\<open>Retry.execute\<close> raises that exception after one invocation and no
  sleep: the world is the one the invocation left.
\<close>

theorem retry_execute_other_error:
  assumes "1 \<le> max_retries r"
    and "fn w = (Inl e, w1)"
    and "\<not> exception r e"
  shows "execute r fn w = (Inl e, \<lparr>invocations = 1, sleeps = []\<rparr>, w1)"
  using execute_from_unfold_other [of 0 r fn w e w1 no_trace] assms
  by (simp add: execute_def no_trace_def)

theorem retry_execute_other_error_witness:
  "execute \<lparr>max_retries = 3, delay_secs = 2, exception = isinstance_StaleResponseError\<rparr>
     (\<lambda>w. (Inl NetworkError, w\<lparr>outside := outside w + 1\<rparr>))
     \<lparr>now = 0, last_known_server_state = initial_state, outside = 0 :: nat\<rparr>
   = (Inl NetworkError :: (unit, unit) error + nat option,
      \<lparr>invocations = 1, sleeps = []\<rparr>,
      \<lparr>now = 0, last_known_server_state = initial_state, outside = 1\<rparr>)"
  using retry_execute_other_error [where e = NetworkError
      and r = "\<lparr>max_retries = 3, delay_secs = 2, exception = isinstance_StaleResponseError\<rparr>"
      and fn = "\<lambda>w. (Inl NetworkError :: (unit, unit) error + nat, w\<lparr>outside := outside w + 1\<rparr>)"
      and w = "\<lparr>now = 0, last_known_server_state = initial_state, outside = 0 :: nat\<rparr>"
      and ?w1.0 = "\<lparr>now = 0, last_known_server_state = initial_state, outside = 1 :: nat\<rparr>"]
  by (simp add: isinstance_StaleResponseError_def)

section \<open>One call: absent ledger fields and stale responses\<close>

lemma track_response_absent:
  assumes "diem_chain_id json = None" "diem_ledger_version json = None"
  shows "(track_response json ign w :: (('j, 't) error + 'j envelope) \<times> 's world) =
     (Inl (if chain_id (last_known_server_state w) \<noteq> Some (- 1) \<and> chain_id (last_known_server_state w) \<noteq> None
           then InvalidServerResponse (ChainIdMismatch (chain_id (last_known_server_state w)) None)
           else TypeError), w)"
  using assms by (simp add: track_response_def update_last_known_state_def)

lemma track_response_stale:
  assumes "fst (update_last_known_state (diem_chain_id json) (diem_ledger_version json)
             (diem_ledger_timestampusec json) (last_known_server_state w)
             :: (('j, 't) error + unit) \<times> State) = Inl (StaleResponseError x)"
  shows "(track_response json ign w :: (('j, 't) error + 'j envelope) \<times> 's world) =
     (if ign then Inr json else Inl (StaleResponseError x), w)"
proof -
  have "snd (update_last_known_state (diem_chain_id json) (diem_ledger_version json)
             (diem_ledger_timestampusec json) (last_known_server_state w)
             :: (('j, 't) error + unit) \<times> State) = last_known_server_state w"
    using assms by (auto simp: update_last_known_state_def split: option.splits if_splits)
  with assms show ?thesis
    by (cases "update_last_known_state (diem_chain_id json) (diem_ledger_version json)
             (diem_ledger_timestampusec json) (last_known_server_state w)
             :: (('j, 't) error + unit) \<times> State")
       (simp add: track_response_def)
qed

lemma send_http_request_body:
  assumes "post u request w = (Body json, w1)"
  shows "send_http_request post u request ign w = track_response json ign w1"
  using assms by (simp add: send_http_request_def receive_response_def)

lemma translate_exception_simps:
  "translate_exception b (StaleResponseError x) = StaleResponseError x"
  "translate_exception b (InvalidServerResponse y) = InvalidServerResponse y"
  "translate_exception b TypeError = TypeError"
  by (simp_all add: translate_exception_def)

text \<open>
  Claim C3 as it is written says that a response without the three ledger fields is
  tolerated. On a client that has not seen a response yet, the call below raises
  \<^verbatim>\<open>TypeError\<close>: \<^verbatim>\<open>json.get\<close> gives \<^verbatim>\<open>None\<close>, the update is called with it, and
  \<^verbatim>\<open>curr.version > version\<close> compares an integer with \<^verbatim>\<open>None\<close>.
\<close>

theorem absent_ledger_fields_counterexample:
  "execute_without_retry
     \<lparr>url = ''primary'',
      session_post = (\<lambda>u q w. (Body \<lparr>error_member = None, result_member = Some (7 :: nat),
         diem_chain_id = None, diem_ledger_version = None, diem_ledger_timestampusec = None\<rparr>, w)),
      retry = \<lparr>max_retries = 5, delay_secs = 1, exception = isinstance_StaleResponseError\<rparr>,
      rs = RequestStrategy\<rparr>
     \<lparr>interleaving = [], choice = 0, primary_first = True\<rparr>
     ''get_currencies'' [] (Some Inr) None
     \<lparr>now = 0, last_known_server_state = initial_state, outside = ()\<rparr>
   = (Inl TypeError :: (nat, unit) error + nat option,
      \<lparr>now = 0, last_known_server_state = initial_state, outside = ()\<rparr>)"
  by (simp add: execute_without_retry_def send_request_def send_http_request_def
      receive_response_def track_response_def update_last_known_state_def initial_state_def
      translate_exception_def)

text \<open>
  Claim C3, amended: a response without the three ledger fields is not tolerated. With
  the direct strategy, \<^verbatim>\<open>_send_http_request\<close> calls the update with the absent values; the
  update raises \<^verbatim>\<open>InvalidServerResponse\<close> for the chain id when a chain id other than -1 is
  stored, and otherwise the comparison of the stored version with \<^verbatim>\<open>None\<close> raises
  \<^verbatim>\<open>TypeError\<close>. The stored state stays as it was, and \<^verbatim>\<open>execute_without_retry\<close> raises
  that exception in place of classifying the response, whatever \<^verbatim>\<open>ignore_stale_response\<close>
  is.
\<close>

theorem absent_ledger_fields_raise:
  assumes "rs client = RequestStrategy"
    and "session_post client (url client)
           \<lparr>jsonrpc_member = ''2.0'', id_member = 1, method_member = method_name, params_member = params\<rparr> w
         = (Body json, w1)"
    and "diem_chain_id json = None"
    and "diem_ledger_version json = None"
    and "diem_ledger_timestampusec json = None"
  shows "execute_without_retry client ch method_name params result_parser ignore_stale_response w =
     (Inl (if chain_id (last_known_server_state w1) \<noteq> Some (- 1) \<and> chain_id (last_known_server_state w1) \<noteq> None
           then InvalidServerResponse (ChainIdMismatch (chain_id (last_known_server_state w1)) None)
           else TypeError), w1)"
  using assms
  by (simp add: execute_without_retry_def send_request_def send_http_request_body
      track_response_absent translate_exception_simps)

theorem absent_ledger_fields_raise_witness:
  "execute_without_retry
     \<lparr>url = ''primary'',
      session_post = (\<lambda>u q w. (Body \<lparr>error_member = None, result_member = Some (7 :: nat),
         diem_chain_id = None, diem_ledger_version = None, diem_ledger_timestampusec = None\<rparr>, w)),
      retry = \<lparr>max_retries = 5, delay_secs = 1, exception = isinstance_StaleResponseError\<rparr>,
      rs = RequestStrategy\<rparr>
     \<lparr>interleaving = [], choice = 0, primary_first = True\<rparr>
     ''submit'' [] None (Some True)
     \<lparr>now = 0, last_known_server_state = \<lparr>chain_id = Some 2, version = 10, timestamp_usecs = 1000\<rparr>,
      outside = ()\<rparr>
   = (Inl (InvalidServerResponse (ChainIdMismatch (Some 2) None)) :: (nat, unit) error + nat option,
      \<lparr>now = 0, last_known_server_state = \<lparr>chain_id = Some 2, version = 10, timestamp_usecs = 1000\<rparr>,
       outside = ()\<rparr>)"
  using absent_ledger_fields_raise [where client = "\<lparr>url = ''primary'',
      session_post = (\<lambda>u q w. (Body \<lparr>error_member = None, result_member = Some (7 :: nat),
         diem_chain_id = None, diem_ledger_version = None, diem_ledger_timestampusec = None\<rparr>, w)),
      retry = \<lparr>max_retries = 5, delay_secs = 1, exception = isinstance_StaleResponseError :: (nat, unit) error \<Rightarrow> bool\<rparr>,
      rs = RequestStrategy\<rparr>"
    and method_name = "''submit''" and params = "[]"
    and w = "\<lparr>now = 0, last_known_server_state = \<lparr>chain_id = Some 2, version = 10, timestamp_usecs = 1000\<rparr>,
      outside = ()\<rparr>"
    and ?w1.0 = "\<lparr>now = 0, last_known_server_state = \<lparr>chain_id = Some 2, version = 10, timestamp_usecs = 1000\<rparr>,
      outside = ()\<rparr>"
    and json = "\<lparr>error_member = None, result_member = Some (7 :: nat),
         diem_chain_id = None, diem_ledger_version = None, diem_ledger_timestampusec = None\<rparr>"
    and result_parser = "None :: (nat \<Rightarrow> (nat, unit) error + nat) option"
    and ignore_stale_response = "Some True"
    and ch = "\<lparr>interleaving = [], choice = 0, primary_first = True\<rparr>"]
  by simp

lemma execute_without_retry_stale:
  assumes "send_request client ch
             \<lparr>jsonrpc_member = ''2.0'', id_member = 1, method_member = method_name, params_member = params\<rparr>
             (case ign of None \<Rightarrow> False | Some b \<Rightarrow> b) w = (Inl (StaleResponseError x), w1)"
  shows "execute_without_retry client ch method_name params result_parser ign w = (Inl (StaleResponseError x), w1)"
  using assms by (simp add: execute_without_retry_def translate_exception_simps)

text \<open>
  Claim C4: when the update of the tracker raises \<^verbatim>\<open>StaleResponseError\<close> on the response
  of a call with the direct strategy, \<^verbatim>\<open>execute_without_retry\<close> raises that exception if
  \<^verbatim>\<open>ignore_stale_response\<close> is false or absent, and if it is true goes on to classify the
  same response; the stored state is unchanged in both. With any strategy, a
  \<^verbatim>\<open>StaleResponseError\<close> that \<^verbatim>\<open>send_request\<close> raises leaves \<^verbatim>\<open>execute_without_retry\<close> as it
  is: neither \<^verbatim>\<open>except\<close> clause catches it.
\<close>

theorem stale_response_raised_or_ignored:
  "(rs client = RequestStrategy
      \<and> session_post client (url client)
           \<lparr>jsonrpc_member = ''2.0'', id_member = 1, method_member = method_name, params_member = params\<rparr> w
          = (Body json, w1)
      \<and> fst (update_last_known_state (diem_chain_id json) (diem_ledger_version json)
             (diem_ledger_timestampusec json) (last_known_server_state w1)
             :: (('j, 't) error + unit) \<times> State) = Inl (StaleResponseError x)
    \<longrightarrow> (ign \<noteq> Some True \<longrightarrow>
           execute_without_retry client ch method_name params result_parser ign w
             = (Inl (StaleResponseError x), w1))
        \<and> execute_without_retry client ch method_name params result_parser (Some True) w
             = (case classify json result_parser of
                  Inl e \<Rightarrow> Inl (translate_exception True e)
                | Inr v \<Rightarrow> Inr v, w1))
   \<and> (send_request client ch
         \<lparr>jsonrpc_member = ''2.0'', id_member = 1, method_member = method_name, params_member = params\<rparr>
         (case ign of None \<Rightarrow> False | Some b \<Rightarrow> b) w = (Inl (StaleResponseError y), w2)
    \<longrightarrow> execute_without_retry (client :: ('j, 't, 's) Client) ch method_name params
           (result_parser :: ('j \<Rightarrow> ('j, 't) error + 'r) option) ign w
          = (Inl (StaleResponseError y), w2))"
proof (intro conjI impI)
  assume a: "rs client = RequestStrategy
      \<and> session_post client (url client)
           \<lparr>jsonrpc_member = ''2.0'', id_member = 1, method_member = method_name, params_member = params\<rparr> w
          = (Body json, w1)
      \<and> fst (update_last_known_state (diem_chain_id json) (diem_ledger_version json)
             (diem_ledger_timestampusec json) (last_known_server_state w1)
             :: (('j, 't) error + unit) \<times> State) = Inl (StaleResponseError x)"
  then have sr: "send_request client ch
         \<lparr>jsonrpc_member = ''2.0'', id_member = 1, method_member = method_name, params_member = params\<rparr> b w
       = (if b then Inr json else Inl (StaleResponseError x), w1)" for b
    by (simp add: send_request_def send_http_request_body track_response_stale)
  show "execute_without_retry client ch method_name params result_parser (Some True) w
             = (case classify json result_parser of
                  Inl e \<Rightarrow> Inl (translate_exception True e)
                | Inr v \<Rightarrow> Inr v, w1)"
    by (simp add: execute_without_retry_def sr split: sum.splits)
  assume "ign \<noteq> Some True"
  then have "(case ign of None \<Rightarrow> False | Some b \<Rightarrow> b) = False"
    by (cases ign) auto
  then show "execute_without_retry client ch method_name params result_parser ign w
             = (Inl (StaleResponseError x), w1)"
    by (intro execute_without_retry_stale) (simp add: sr)
next
  assume "send_request client ch
         \<lparr>jsonrpc_member = ''2.0'', id_member = 1, method_member = method_name, params_member = params\<rparr>
         (case ign of None \<Rightarrow> False | Some b \<Rightarrow> b) w = (Inl (StaleResponseError y), w2)"
  then show "execute_without_retry client ch method_name params result_parser ign w
          = (Inl (StaleResponseError y), w2)"
    by (rule execute_without_retry_stale)
qed

theorem stale_response_raised_or_ignored_witness:
  "execute_without_retry
     \<lparr>url = ''primary'',
      session_post = (\<lambda>u q w. (Body \<lparr>error_member = None, result_member = Some (7 :: nat),
         diem_chain_id = Some 2, diem_ledger_version = Some 9, diem_ledger_timestampusec = Some 1000\<rparr>, w)),
      retry = \<lparr>max_retries = 5, delay_secs = 1, exception = isinstance_StaleResponseError\<rparr>,
      rs = RequestStrategy\<rparr>
     \<lparr>interleaving = [], choice = 0, primary_first = True\<rparr>
     ''get_currencies'' [] (Some Inr) None
     \<lparr>now = 0, last_known_server_state = \<lparr>chain_id = Some 2, version = 10, timestamp_usecs = 1000\<rparr>,
      outside = ()\<rparr>
   = (Inl (StaleResponseError (StaleVersion 10 9)) :: (nat, unit) error + nat option,
      \<lparr>now = 0, last_known_server_state = \<lparr>chain_id = Some 2, version = 10, timestamp_usecs = 1000\<rparr>,
       outside = ()\<rparr>)
   \<and> execute_without_retry
     \<lparr>url = ''primary'',
      session_post = (\<lambda>u q w. (Body \<lparr>error_member = None, result_member = Some (7 :: nat),
         diem_chain_id = Some 2, diem_ledger_version = Some 9, diem_ledger_timestampusec = Some 1000\<rparr>, w)),
      retry = \<lparr>max_retries = 5, delay_secs = 1, exception = isinstance_StaleResponseError\<rparr>,
      rs = RequestStrategy\<rparr>
     \<lparr>interleaving = [], choice = 0, primary_first = True\<rparr>
     ''get_currencies'' [] (Some Inr) (Some True)
     \<lparr>now = 0, last_known_server_state = \<lparr>chain_id = Some 2, version = 10, timestamp_usecs = 1000\<rparr>,
      outside = ()\<rparr>
   = (Inr (Some 7) :: (nat, unit) error + nat option,
      \<lparr>now = 0, last_known_server_state = \<lparr>chain_id = Some 2, version = 10, timestamp_usecs = 1000\<rparr>,
       outside = ()\<rparr>)"
  using stale_response_raised_or_ignored [where client = "\<lparr>url = ''primary'',
      session_post = (\<lambda>u q w. (Body \<lparr>error_member = None, result_member = Some (7 :: nat),
         diem_chain_id = Some 2, diem_ledger_version = Some 9, diem_ledger_timestampusec = Some 1000\<rparr>, w)),
      retry = \<lparr>max_retries = 5, delay_secs = 1, exception = isinstance_StaleResponseError :: (nat, unit) error \<Rightarrow> bool\<rparr>,
      rs = RequestStrategy\<rparr>"
    and method_name = "''get_currencies''" and params = "[]"
    and w = "\<lparr>now = 0, last_known_server_state = \<lparr>chain_id = Some 2, version = 10, timestamp_usecs = 1000\<rparr>,
      outside = ()\<rparr>"
    and ?w1.0 = "\<lparr>now = 0, last_known_server_state = \<lparr>chain_id = Some 2, version = 10, timestamp_usecs = 1000\<rparr>,
      outside = ()\<rparr>"
    and ?w2.0 = "\<lparr>now = 0, last_known_server_state = \<lparr>chain_id = Some 2, version = 10, timestamp_usecs = 1000\<rparr>,
      outside = ()\<rparr>"
    and json = "\<lparr>error_member = None, result_member = Some (7 :: nat),
         diem_chain_id = Some 2, diem_ledger_version = Some 9, diem_ledger_timestampusec = Some 1000\<rparr>"
    and result_parser = "Some Inr :: (nat \<Rightarrow> (nat, unit) error + nat) option"
    and ign = None and x = "StaleVersion 10 9" and y = "StaleVersion 10 9"
    and ch = "\<lparr>interleaving = [], choice = 0, primary_first = True\<rparr>"]
  by (simp add: update_last_known_state_def classify_def send_request_def send_http_request_def
      receive_response_def track_response_def)

section \<open>Primary and backup in fallback mode\<close>

text \<open>
  Claim C9: in fallback mode, whatever the interleaving of the two calls, \<^verbatim>\<open>send_request\<close>
  returns the value of the primary call when it succeeded, and otherwise what the backup
  call returned or raised.
\<close>

theorem fallback_returns_backup_when_primary_fails:
  assumes "rs client = RequestWithBackups bks True"
    and "bks \<noteq> []"
    and "run_tasks (interleaving ch) (session_post client) (url client)
           (bks ! (choice ch mod length bks)) request ign Submitted Submitted w
         = (primary, backup, w1)"
  shows "send_request client ch request ign w
           = (case primary of Inl e \<Rightarrow> backup | Inr v \<Rightarrow> Inr v, w1)
         \<and> fallback_to_backup (Inl e') backup = backup
         \<and> fallback_to_backup (Inr v' :: ('j, 't) error + 'j envelope) backup = Inr v'"
  using assms by (simp add: send_request_def fallback_to_backup_def split: sum.splits)

theorem fallback_returns_backup_when_primary_fails_witness:
  "send_request
     \<lparr>url = ''primary'',
      session_post = (\<lambda>u q w. (if u = ''primary'' then PostFailed
         else Body \<lparr>error_member = None, result_member = Some (7 :: nat),
           diem_chain_id = Some 2, diem_ledger_version = Some 10, diem_ledger_timestampusec = Some 1000\<rparr>, w)),
      retry = \<lparr>max_retries = 5, delay_secs = 1, exception = isinstance_StaleResponseError\<rparr>,
      rs = RequestWithBackups [''backup''] True\<rparr>
     \<lparr>interleaving = [False, True, False], choice = 4, primary_first = False\<rparr>
     \<lparr>jsonrpc_member = ''2.0'', id_member = 1, method_member = ''get_currencies'', params_member = []\<rparr>
     False
     \<lparr>now = 0, last_known_server_state = initial_state, outside = ()\<rparr>
   = (Inr \<lparr>error_member = None, result_member = Some 7,
           diem_chain_id = Some 2, diem_ledger_version = Some 10, diem_ledger_timestampusec = Some 1000\<rparr>
        :: (nat, unit) error + nat envelope,
      \<lparr>now = 0, last_known_server_state = \<lparr>chain_id = Some 2, version = 10, timestamp_usecs = 1000\<rparr>,
       outside = ()\<rparr>)"
  using fallback_returns_backup_when_primary_fails [where client = "\<lparr>url = ''primary'',
      session_post = (\<lambda>u q w. (if u = ''primary'' then PostFailed
         else Body \<lparr>error_member = None, result_member = Some (7 :: nat),
           diem_chain_id = Some 2, diem_ledger_version = Some 10, diem_ledger_timestampusec = Some 1000\<rparr>, w)),
      retry = \<lparr>max_retries = 5, delay_secs = 1, exception = isinstance_StaleResponseError :: (nat, unit) error \<Rightarrow> bool\<rparr>,
      rs = RequestWithBackups [''backup''] True\<rparr>"
    and bks = "[''backup'']"
    and ch = "\<lparr>interleaving = [False, True, False], choice = 4, primary_first = False\<rparr>"
    and request = "\<lparr>jsonrpc_member = ''2.0'', id_member = 1, method_member = ''get_currencies'', params_member = []\<rparr>"
    and ign = False
    and w = "\<lparr>now = 0, last_known_server_state = initial_state, outside = ()\<rparr>"
    and primary = "Inl RequestException"
    and backup = "Inr \<lparr>error_member = None, result_member = Some 7,
           diem_chain_id = Some 2, diem_ledger_version = Some 10, diem_ledger_timestampusec = Some 1000\<rparr>"
    and ?w1.0 = "\<lparr>now = 0, last_known_server_state = \<lparr>chain_id = Some 2, version = 10, timestamp_usecs = 1000\<rparr>,
       outside = ()\<rparr>"]
  by (simp add: task_step_def task_result_def receive_response_def track_response_def
      update_last_known_state_def initial_state_def)

section \<open>The wait loop\<close>

lemma or_default_zero: "or_default (Some 0) d = or_default None d"
  by (simp add: or_default_def)

lemma wait_loop_zero_interval:
  "wait_loop fuel c lookup address seq expiry txn_hash start_time max_wait (Some 0) w =
   wait_loop fuel c lookup address seq expiry txn_hash start_time max_wait None w"
proof (induction fuel arbitrary: w)
  case 0
  show ?case by simp
next
  case (Suc fuel)
  show ?case
    by (simp add: or_default_zero Suc.IH split: prod.splits sum.splits option.splits)
qed

lemma wait_loop_timeout_at_deadline:
  assumes "\<forall>w0 s0 s1. fst (lookup address seq True w0) \<noteq> Inl (WaitForTransactionTimeout s0 s1)"
  shows "wait_loop fuel c lookup address seq expiry txn_hash start_time max_wait wd w =
     Some (Inl (WaitForTransactionTimeout t0 t1), w') \<Longrightarrow> max_wait \<le> t1"
proof (induction fuel arbitrary: w)
  case 0
  then show ?case by simp
next
  case (Suc fuel)
  show ?case
  proof (cases "now w < max_wait")
    case False
    with Suc.prems show ?thesis by auto
  next
    case True
    obtain r w1 where l: "lookup address seq True w = (r, w1)"
      by (cases "lookup address seq True w")
    show ?thesis
    proof (cases r)
      case (Inl e)
      with Suc.prems True l assms show ?thesis
        by (auto dest: spec [of _ w])
    next
      case (Inr found)
      show ?thesis
      proof (cases found)
        case (Some txn)
        with Suc.prems True l Inr show ?thesis
          by (simp split: if_splits)
      next
        case None
        with Suc.prems True l Inr Suc.IH show ?thesis
          by (auto simp: time_sleep_def split: if_splits)
      qed
    qed
  qed
qed

lemma poll_world_shift:
  "poll_world c lookup address seq wd w (Suc i) =
   poll_world c lookup address seq wd (poll_world c lookup address seq wd w (Suc 0)) i"
  by (induction i) simp_all

lemma wait_loop_expires:
  assumes "\<forall>i\<le>n. fst (lookup address seq True (poll_world c lookup address seq wd w i)) = Inr None"
    and "\<forall>i\<le>n. now (poll_world c lookup address seq wd w i) < max_wait"
    and "\<forall>i<n. timestamp_usecs (last_known_server_state (poll_world c lookup address seq wd w i))
           < expiry * 1000000"
    and "expiry * 1000000
           \<le> timestamp_usecs (last_known_server_state (poll_world c lookup address seq wd w n))"
    and "0 \<le> or_default wd (DEFAULT_WAIT_FOR_TRANSACTION_WAIT_DURATION_SECS c)"
    and "n < fuel"
  shows "wait_loop fuel c lookup address seq expiry txn_hash start_time max_wait wd w =
     Some (Inl (TransactionExpired
                  (last_known_server_state (poll_world c lookup address seq wd w n)) expiry),
           snd (lookup address seq True (poll_world c lookup address seq wd w n)))"
  using assms
proof (induction n arbitrary: w fuel)
  case 0
  then obtain f where f: "fuel = Suc f" by (cases fuel) simp_all
  obtain r w1 where l: "lookup address seq True w = (r, w1)"
    by (cases "lookup address seq True w")
  with 0 show ?case
    by (simp add: f get_last_known_state_def)
next
  case (Suc n)
  then obtain f where f: "fuel = Suc f" "n < f" by (cases fuel) simp_all
  obtain r w1 where l: "lookup address seq True w = (r, w1)"
    by (cases "lookup address seq True w")
  let ?w' = "poll_world c lookup address seq wd w (Suc 0)"
  have r: "r = Inr None" using Suc.prems(1) l by (auto dest: spec [of _ 0])
  have t: "now w < max_wait" using Suc.prems(2) by (auto dest: spec [of _ 0])
  have fresh: "timestamp_usecs (last_known_server_state w) < expiry * 1000000"
    using Suc.prems(3) by (auto dest: spec [of _ 0])
  have step: "wait_loop fuel c lookup address seq expiry txn_hash start_time max_wait wd w =
      wait_loop f c lookup address seq expiry txn_hash start_time max_wait wd ?w'"
    using r t fresh l Suc.prems(5)
    by (simp add: f get_last_known_state_def time_sleep_def)
  have shift: "poll_world c lookup address seq wd ?w' i = poll_world c lookup address seq wd w (Suc i)" for i
    using poll_world_shift [of c lookup address seq wd w i] by simp
  have "wait_loop f c lookup address seq expiry txn_hash start_time max_wait wd ?w' =
     Some (Inl (TransactionExpired
                  (last_known_server_state (poll_world c lookup address seq wd ?w' n)) expiry),
           snd (lookup address seq True (poll_world c lookup address seq wd ?w' n)))"
  proof (rule Suc.IH)
    show "\<forall>i\<le>n. fst (lookup address seq True (poll_world c lookup address seq wd ?w' i)) = Inr None"
      unfolding shift using Suc.prems(1) by auto
    show "\<forall>i\<le>n. now (poll_world c lookup address seq wd ?w' i) < max_wait"
      unfolding shift using Suc.prems(2) by auto
    show "\<forall>i<n. timestamp_usecs (last_known_server_state (poll_world c lookup address seq wd ?w' i))
           < expiry * 1000000"
      unfolding shift using Suc.prems(3) by auto
    show "expiry * 1000000
           \<le> timestamp_usecs (last_known_server_state (poll_world c lookup address seq wd ?w' n))"
      unfolding shift using Suc.prems(4) by simp
    show "0 \<le> or_default wd (DEFAULT_WAIT_FOR_TRANSACTION_WAIT_DURATION_SECS c)"
      by (rule Suc.prems(5))
    show "n < f" by (rule f(2))
  qed
  then show ?case unfolding step shift .
qed

text \<open>
  Claim C8: with a positive timeout, let the lookup find no transaction in the rounds
  0, ..., \<open>n\<close>, each of them started before the deadline, and let round \<open>n\<close> be the first
  whose state, read before its lookup, has a timestamp of at least
  \<open>expiration_time_secs * 1000000\<close>. Then the loop raises \<^verbatim>\<open>TransactionExpired\<close> in round
  \<open>n\<close>, with that state, and no sooner; \<^verbatim>\<open>WaitForTransactionTimeout\<close> is not raised. The
  poll interval is a duration.
\<close>

theorem wait_expires_when_threshold_reached:
  assumes "0 < timeout"
    and "0 \<le> or_default wait_duration_secs (DEFAULT_WAIT_FOR_TRANSACTION_WAIT_DURATION_SECS c)"
    and "\<forall>i\<le>n. fst (lookup address seq True (poll_world c lookup address seq wait_duration_secs w i))
           = Inr None"
    and "\<forall>i\<le>n. now (poll_world c lookup address seq wait_duration_secs w i) < now w + timeout"
    and "\<forall>i<n. timestamp_usecs
                  (last_known_server_state (poll_world c lookup address seq wait_duration_secs w i))
           < expiration_time_secs * 1000000"
    and "expiration_time_secs * 1000000
           \<le> timestamp_usecs
                (last_known_server_state (poll_world c lookup address seq wait_duration_secs w n))"
    and "n < fuel"
  shows "wait_for_transaction2 fuel c lookup address seq expiration_time_secs txn_hash
           (Some timeout) wait_duration_secs w =
     Some (Inl (TransactionExpired
                  (last_known_server_state (poll_world c lookup address seq wait_duration_secs w n))
                  expiration_time_secs),
           snd (lookup address seq True (poll_world c lookup address seq wait_duration_secs w n)))"
proof -
  have "or_default (Some timeout) (DEFAULT_WAIT_FOR_TRANSACTION_TIMEOUT_SECS c) = timeout"
    using assms(1) by (simp add: or_default_def)
  then show ?thesis
    unfolding wait_for_transaction2_def
    using wait_loop_expires [OF assms(3) _ assms(5) assms(6) assms(2) assms(7)] assms(4)
    by simp
qed

theorem wait_expires_when_threshold_reached_witness:
  "wait_for_transaction2 3
     \<lparr>DEFAULT_WAIT_FOR_TRANSACTION_TIMEOUT_SECS = 20,
      DEFAULT_WAIT_FOR_TRANSACTION_WAIT_DURATION_SECS = 1,
      VM_STATUS_EXECUTED = ''executed''\<rparr>
     (\<lambda>a s b w. (Inr None :: (unit, Transaction) error + Transaction option,
        w\<lparr>last_known_server_state :=
            (last_known_server_state w)\<lparr>timestamp_usecs :=
               timestamp_usecs (last_known_server_state w) + 1000000\<rparr>\<rparr>))
     ''sender'' 7 2 ''abc'' (Some 10) None
     \<lparr>now = 0, last_known_server_state = \<lparr>chain_id = Some 2, version = 10, timestamp_usecs = 0\<rparr>,
      outside = ()\<rparr>
   = Some (Inl (TransactionExpired \<lparr>chain_id = Some 2, version = 10, timestamp_usecs = 2000000\<rparr> 2),
      \<lparr>now = 2, last_known_server_state = \<lparr>chain_id = Some 2, version = 10, timestamp_usecs = 3000000\<rparr>,
       outside = ()\<rparr>)"
  using wait_expires_when_threshold_reached [where n = 2 and fuel = 3 and timeout = 10
      and wait_duration_secs = None and expiration_time_secs = 2 and txn_hash = "''abc''"
      and address = "''sender''" and seq = 7
      and c = "\<lparr>DEFAULT_WAIT_FOR_TRANSACTION_TIMEOUT_SECS = 20,
      DEFAULT_WAIT_FOR_TRANSACTION_WAIT_DURATION_SECS = 1,
      VM_STATUS_EXECUTED = ''executed''\<rparr>"
      and lookup = "\<lambda>a s b w. (Inr None :: (unit, Transaction) error + Transaction option,
        w\<lparr>last_known_server_state :=
            (last_known_server_state w)\<lparr>timestamp_usecs :=
               timestamp_usecs (last_known_server_state w) + 1000000\<rparr>\<rparr>)"
      and w = "\<lparr>now = 0, last_known_server_state = \<lparr>chain_id = Some 2, version = 10, timestamp_usecs = 0\<rparr>,
      outside = ()\<rparr>"]
  by (simp add: numeral_2_eq_2 le_Suc_eq less_Suc_eq or_default_def)

text \<open>
  Claim C10: a \<^verbatim>\<open>timeout_secs\<close> of 0 is the same call as no \<^verbatim>\<open>timeout_secs\<close>, and a
  \<^verbatim>\<open>wait_duration_secs\<close> of 0 the same call as none: \<^verbatim>\<open>or\<close> replaces both by the default.
  So with a zero timeout the loop raises \<^verbatim>\<open>WaitForTransactionTimeout\<close> only when the
  clock has reached the start plus the default timeout (the lookup itself never raises
  that exception).
\<close>

theorem zero_timeout_is_default_timeout:
  "wait_for_transaction2 fuel c lookup address seq expiry txn_hash (Some 0) wait_duration_secs w
     = wait_for_transaction2 fuel c lookup address seq expiry txn_hash None wait_duration_secs w
   \<and> wait_for_transaction2 fuel c lookup address seq expiry txn_hash timeout_secs (Some 0) w
     = wait_for_transaction2 fuel c lookup address seq expiry txn_hash timeout_secs None w
   \<and> ((\<forall>w0 s0 s1. fst (lookup address seq True w0) \<noteq> Inl (WaitForTransactionTimeout s0 s1))
        \<and> wait_for_transaction2 fuel c lookup address seq expiry txn_hash (Some 0) wait_duration_secs w
            = Some (Inl (WaitForTransactionTimeout t0 t1), w')
      \<longrightarrow> now w + DEFAULT_WAIT_FOR_TRANSACTION_TIMEOUT_SECS c \<le> t1)"
proof (intro conjI impI)
  show "wait_for_transaction2 fuel c lookup address seq expiry txn_hash (Some 0) wait_duration_secs w
     = wait_for_transaction2 fuel c lookup address seq expiry txn_hash None wait_duration_secs w"
    by (simp add: wait_for_transaction2_def or_default_zero)
  show "wait_for_transaction2 fuel c lookup address seq expiry txn_hash timeout_secs (Some 0) w
     = wait_for_transaction2 fuel c lookup address seq expiry txn_hash timeout_secs None w"
    by (simp add: wait_for_transaction2_def wait_loop_zero_interval)
next
  assume a: "(\<forall>w0 s0 s1. fst (lookup address seq True w0) \<noteq> Inl (WaitForTransactionTimeout s0 s1))
        \<and> wait_for_transaction2 fuel c lookup address seq expiry txn_hash (Some 0) wait_duration_secs w
            = Some (Inl (WaitForTransactionTimeout t0 t1), w')"
  then have "wait_loop fuel c lookup address seq expiry txn_hash (now w)
       (now w + DEFAULT_WAIT_FOR_TRANSACTION_TIMEOUT_SECS c) wait_duration_secs w
     = Some (Inl (WaitForTransactionTimeout t0 t1), w')"
    by (simp add: wait_for_transaction2_def or_default_def)
  then show "now w + DEFAULT_WAIT_FOR_TRANSACTION_TIMEOUT_SECS c \<le> t1"
    by (rule wait_loop_timeout_at_deadline
        [where lookup = lookup and address = address and seq = seq, OF conjunct1 [OF a]])
qed

theorem zero_timeout_is_default_timeout_witness:
  "wait_for_transaction2 2
     \<lparr>DEFAULT_WAIT_FOR_TRANSACTION_TIMEOUT_SECS = 1,
      DEFAULT_WAIT_FOR_TRANSACTION_WAIT_DURATION_SECS = 1,
      VM_STATUS_EXECUTED = ''executed''\<rparr>
     (\<lambda>a s b w. (Inr None :: (unit, Transaction) error + Transaction option, w))
     ''sender'' 7 100 ''abc'' (Some 0) (Some 0)
     \<lparr>now = 0, last_known_server_state = initial_state, outside = ()\<rparr>
   = Some (Inl (WaitForTransactionTimeout 0 1),
      \<lparr>now = 1, last_known_server_state = initial_state, outside = ()\<rparr>)
   \<and> (0 :: real) + 1 \<le> 1"
  using zero_timeout_is_default_timeout [where fuel = 2 and expiry = 100 and txn_hash = "''abc''"
      and address = "''sender''" and seq = 7 and wait_duration_secs = "Some 0"
      and ?t0.0 = 0 and ?t1.0 = 1
      and w' = "\<lparr>now = 1, last_known_server_state = initial_state, outside = ()\<rparr>"
      and c = "\<lparr>DEFAULT_WAIT_FOR_TRANSACTION_TIMEOUT_SECS = 1,
      DEFAULT_WAIT_FOR_TRANSACTION_WAIT_DURATION_SECS = 1,
      VM_STATUS_EXECUTED = ''executed''\<rparr>"
      and lookup = "\<lambda>a s b w. (Inr None :: (unit, Transaction) error + Transaction option, w)"
      and w = "\<lparr>now = 0, last_known_server_state = initial_state, outside = ()\<rparr>"]
  by (simp add: numeral_2_eq_2 wait_for_transaction2_def or_default_def time_sleep_def
      get_last_known_state_def initial_state_def)

end
